theory Spec2Isabelle
  imports Complex_Main
begin

section \<open>JavaScript values\<close>

text \<open>
  The server of \<^verbatim>\<open>src/index.js\<close> receives its tool arguments as parsed JSON and
  hands object literals to the Calendar Client. A value is therefore \<open>undefined\<close> (a
  missing property), \<open>null\<close>, a boolean, a number, a string, an array or an object. An
  object is the list of its properties in insertion order. Numbers are the rationals:
  every finite double is one, the program does no arithmetic on them, and \<open>NaN\<close> and
  the infinities cannot be written in JSON.
\<close>

datatype jsval =
    JUndefined
  | JNull
  | JBool bool
  | JNum rat
  | JStr string
  | JArr "jsval list"
  | JObj "(string \<times> jsval) list"

text \<open>ToBoolean: what \<^verbatim>\<open>if (v)\<close> and \<^verbatim>\<open>v || d\<close> test.\<close>

fun truthy :: "jsval \<Rightarrow> bool" where
  "truthy JUndefined = False"
| "truthy JNull = False"
| "truthy (JBool b) = b"
| "truthy (JNum n) = (n \<noteq> 0)"
| "truthy (JStr s) = (s \<noteq> [])"
| "truthy (JArr xs) = True"
| "truthy (JObj kvs) = True"

text \<open>\<^verbatim>\<open>a || b\<close>: the left operand when it is truthy, the right one otherwise.\<close>

definition js_or :: "jsval \<Rightarrow> jsval \<Rightarrow> jsval" where
  "js_or a b = (if truthy a then a else b)"

fun nullish :: "jsval \<Rightarrow> bool" where
  "nullish JUndefined = True"
| "nullish JNull = True"
| "nullish v = False"

text \<open>
  Reading a property of a value that is neither \<open>undefined\<close> nor \<open>null\<close>. The program
  reads only the names \<open>eventId\<close>, \<open>summary\<close>, \<open>location\<close>, \<open>description\<close>, \<open>start\<close>,
  \<open>end\<close>, \<open>attendees\<close>, \<open>maxResults\<close>, \<open>timeMin\<close>, \<open>timeMax\<close>, \<open>id\<close> and \<open>items\<close>; no
  prototype of a string, number, boolean, array or plain object defines one of them, so
  on anything but an object with that own property the read gives \<open>undefined\<close>.
\<close>

fun lookup :: "jsval \<Rightarrow> string \<Rightarrow> jsval" where
  "lookup (JObj kvs) k = (case map_of kvs k of None \<Rightarrow> JUndefined | Some v \<Rightarrow> v)"
| "lookup v k = JUndefined"

subsection \<open>Exceptions\<close>

text \<open>
  What the engine raises by itself inside a handler: destructuring \<open>undefined\<close> or
  \<open>null\<close>, reading a property of \<open>undefined\<close> or \<open>null\<close>, calling a property that is
  not a function (the expression is kept as the source writes it), and converting to a
  string an object that has no string form.
\<close>

datatype type_fault =
    Destructure jsval
  | ReadProperty jsval string
  | NotAFunction string
  | ToPrimitive jsval

text \<open>
  A thrown value is an \<open>Error\<close> object: either a rejection of the Calendar Client,
  carrying the provider's message, or a \<open>TypeError\<close> of the engine.
\<close>

datatype js_error =
    Error string
  | TypeError type_fault

text \<open>
  What the source reads from its environment and from the language runtime:
  \<^item> \<open>timeZone\<close>: \<^verbatim>\<open>Intl.DateTimeFormat().resolvedOptions().timeZone\<close>;
  \<^item> \<open>nowISO\<close>: \<^verbatim>\<open>new Date().toISOString()\<close> at the call;
  \<^item> \<open>numberToString\<close>: how a template literal prints a number;
  \<^item> \<open>jsonStringify\<close>: \<^verbatim>\<open>JSON.stringify(v, null, 2)\<close> on a value other than \<open>undefined\<close>;
  \<^item> \<open>typeErrorMessage\<close>: the wording of the engine's \<open>TypeError\<close>s.
\<close>

record env =
  timeZone :: string
  nowISO :: string
  numberToString :: "rat \<Rightarrow> string"
  jsonStringify :: "jsval \<Rightarrow> string"
  typeErrorMessage :: "type_fault \<Rightarrow> string"

text \<open>\<^verbatim>\<open>error.message\<close> in a \<^verbatim>\<open>catch\<close> block.\<close>

fun message :: "env \<Rightarrow> js_error \<Rightarrow> string" where
  "message env (Error m) = m"
| "message env (TypeError f) = typeErrorMessage env f"

text \<open>\<^verbatim>\<open>v.k\<close>: a \<open>TypeError\<close> on \<open>undefined\<close> and \<open>null\<close>.\<close>

definition get :: "jsval \<Rightarrow> string \<Rightarrow> js_error + jsval" where
  "get v k = (if nullish v then Inl (TypeError (ReadProperty v k)) else Inr (lookup v k))"

text \<open>\<^verbatim>\<open>v?.k\<close>: \<open>undefined\<close> on \<open>undefined\<close> and \<open>null\<close>.\<close>

definition opt_get :: "jsval \<Rightarrow> string \<Rightarrow> jsval" where
  "opt_get v k = (if nullish v then JUndefined else lookup v k)"

text \<open>\<^verbatim>\<open>xs.join(sep)\<close> on strings.\<close>

fun join :: "string \<Rightarrow> string list \<Rightarrow> string" where
  "join sep [] = []"
| "join sep [s] = s"
| "join sep (s # t # ss) = s @ sep @ join sep (t # ss)"

text \<open>
  ToString, as a template literal \<^verbatim>\<open>`${v}`\<close> applies it. A plain object is printed
  by \<^verbatim>\<open>Object.prototype.toString\<close>, unless it has an own property \<open>toString\<close>: a
  parsed JSON value is never callable, \<open>valueOf\<close> then gives the object back, and the
  conversion throws a \<open>TypeError\<close>. An array is the \<^verbatim>\<open>join(",")\<close> of its elements,
  \<open>undefined\<close> and \<open>null\<close> printed empty, converted from left to right, so the first
  element without a string form ends the conversion (\<open>to_strings\<close>).
\<close>

fun to_string :: "(rat \<Rightarrow> string) \<Rightarrow> jsval \<Rightarrow> js_error + string"
  and to_strings :: "(rat \<Rightarrow> string) \<Rightarrow> jsval list \<Rightarrow> js_error + string list" where
  "to_string num JUndefined = Inr ''undefined''"
| "to_string num JNull = Inr ''null''"
| "to_string num (JBool b) = Inr (if b then ''true'' else ''false'')"
| "to_string num (JNum n) = Inr (num n)"
| "to_string num (JStr s) = Inr s"
| "to_string num (JArr xs) =
     (case to_strings num xs of Inl e \<Rightarrow> Inl e | Inr ss \<Rightarrow> Inr (join '','' ss))"
| "to_string num (JObj kvs) =
     (if ''toString'' \<in> set (map fst kvs) then Inl (TypeError (ToPrimitive (JObj kvs)))
      else Inr ''[object Object]'')"
| "to_strings num [] = Inr []"
| "to_strings num (x # xs) =
     (case (if nullish x then Inr [] else to_string num x) of
        Inl e \<Rightarrow> Inl e
      | Inr s \<Rightarrow> (case to_strings num xs of Inl e \<Rightarrow> Inl e | Inr ss \<Rightarrow> Inr (s # ss)))"

text \<open>
  \<^verbatim>\<open>xs.map(f)\<close> with a callback that may throw: the first exception ends the loop.
\<close>

fun map_attempt :: "('a \<Rightarrow> js_error + 'b) \<Rightarrow> 'a list \<Rightarrow> js_error + 'b list" where
  "map_attempt f [] = Inr []"
| "map_attempt f (x # xs) =
     (case f x of
        Inl e \<Rightarrow> Inl e
      | Inr y \<Rightarrow> (case map_attempt f xs of Inl e \<Rightarrow> Inl e | Inr ys \<Rightarrow> Inr (y # ys)))"

text \<open>
  \<^verbatim>\<open>v.map(f)\<close> where \<open>v\<close> is any value and \<open>expr\<close> the source text of \<^verbatim>\<open>v.map\<close>: only
  an array has a \<open>map\<close> method; a parsed JSON object holds no function.
\<close>

fun js_map :: "string \<Rightarrow> (jsval \<Rightarrow> js_error + jsval) \<Rightarrow> jsval \<Rightarrow> js_error + jsval" where
  "js_map expr f (JArr xs) =
     (case map_attempt f xs of Inl e \<Rightarrow> Inl e | Inr ys \<Rightarrow> Inr (JArr ys))"
| "js_map expr f JUndefined = Inl (TypeError (ReadProperty JUndefined ''map''))"
| "js_map expr f JNull = Inl (TypeError (ReadProperty JNull ''map''))"
| "js_map expr f v = Inl (TypeError (NotAFunction expr))"

section \<open>The Calendar Client\<close>

text \<open>
  \<^verbatim>\<open>calendar.events\<close> of the googleapis client: each method takes one parameter
  object and either rejects with an \<open>Error\<close> or resolves to a response, of which the
  handlers read only \<^verbatim>\<open>response.data\<close>.
\<close>

record calendar =
  events_list :: "jsval \<Rightarrow> js_error + jsval"
  events_insert :: "jsval \<Rightarrow> js_error + jsval"
  events_patch :: "jsval \<Rightarrow> js_error + jsval"
  events_delete :: "jsval \<Rightarrow> js_error + jsval"

text \<open>The calls a handler has made on the client, in order.\<close>

datatype cal_call =
    EventsList jsval
  | EventsInsert jsval
  | EventsPatch jsval
  | EventsDelete jsval

fun perform :: "calendar \<Rightarrow> cal_call \<Rightarrow> js_error + jsval" where
  "perform calendar (EventsList p) = events_list calendar p"
| "perform calendar (EventsInsert p) = events_insert calendar p"
| "perform calendar (EventsPatch p) = events_patch calendar p"
| "perform calendar (EventsDelete p) = events_delete calendar p"

section \<open>Tool results\<close>

text \<open>
  The two object literals every handler returns: \<^verbatim>\<open>{content: [{type: "text", text}]}\<close>
  and the same with \<^verbatim>\<open>isError: true\<close>.
\<close>

definition text_result :: "jsval \<Rightarrow> jsval" where
  "text_result t =
     JObj [(''content'', JArr [JObj [(''type'', JStr ''text''), (''text'', t)]])]"

definition error_result :: "string \<Rightarrow> jsval" where
  "error_result t =
     JObj [(''content'', JArr [JObj [(''type'', JStr ''text''), (''text'', JStr t)]]),
           (''isError'', JBool True)]"

section \<open>delete\_event\<close>

text \<open>
  \<^verbatim>\<open>const { eventId } = args\<close> and the parameter object of \<^verbatim>\<open>calendar.events.delete\<close>.
\<close>

definition deleteParams :: "jsval \<Rightarrow> js_error + jsval" where
  "deleteParams args =
     (if nullish args then Inl (TypeError (Destructure args))
      else Inr (JObj [(''calendarId'', JStr ''primary''),
                      (''eventId'', lookup args ''eventId'')]))"

definition handleDeleteEvent :: "env \<Rightarrow> calendar \<Rightarrow> jsval \<Rightarrow> jsval \<times> cal_call list" where
  "handleDeleteEvent env calendar args =
     (case deleteParams args of
        Inl error \<Rightarrow> (error_result (''Error deleting event: '' @ message env error), [])
      | Inr params \<Rightarrow>
          (case events_delete calendar params of
             Inl error \<Rightarrow>
               (error_result (''Error deleting event: '' @ message env error),
                [EventsDelete params])
           | Inr data \<Rightarrow>
               (case to_string (numberToString env) (lookup args ''eventId'') of
                  Inl error \<Rightarrow>
                    (error_result (''Error deleting event: '' @ message env error),
                     [EventsDelete params])
                | Inr eventId \<Rightarrow>
                    (text_result (JStr (''Event deleted successfully. Event ID: '' @ eventId)),
                     [EventsDelete params]))))"

section \<open>create\_event\<close>

text \<open>The callback \<^verbatim>\<open>(email) => ({ email })\<close>.\<close>

definition attendee :: "jsval \<Rightarrow> js_error + jsval" where
  "attendee email = Inr (JObj [(''email'', email)])"

text \<open>\<^verbatim>\<open>{ dateTime: t, timeZone: Intl.DateTimeFormat().resolvedOptions().timeZone }\<close>.\<close>

definition zoned :: "env \<Rightarrow> jsval \<Rightarrow> jsval" where
  "zoned env t = JObj [(''dateTime'', t), (''timeZone'', JStr (timeZone env))]"

text \<open>
  The destructuring of \<open>args\<close>, with the default \<^verbatim>\<open>attendees = []\<close> that applies to
  \<open>undefined\<close> only, and the object literal \<open>event\<close>.
\<close>

definition createEvent :: "env \<Rightarrow> jsval \<Rightarrow> js_error + jsval" where
  "createEvent env args =
     (if nullish args then Inl (TypeError (Destructure args))
      else
        let summary = lookup args ''summary'';
            location = lookup args ''location'';
            description = lookup args ''description'';
            start = lookup args ''start'';
            end = lookup args ''end'';
            attendees = (case lookup args ''attendees'' of JUndefined \<Rightarrow> JArr [] | v \<Rightarrow> v)
        in case js_map ''attendees.map'' attendee attendees of
             Inl e \<Rightarrow> Inl e
           | Inr mapped \<Rightarrow>
               Inr (JObj [(''summary'', summary),
                          (''location'', location),
                          (''description'', description),
                          (''start'', zoned env start),
                          (''end'', zoned env end),
                          (''attendees'', mapped)]))"

definition handleCreateEvent :: "env \<Rightarrow> calendar \<Rightarrow> jsval \<Rightarrow> jsval \<times> cal_call list" where
  "handleCreateEvent env calendar args =
     (case createEvent env args of
        Inl error \<Rightarrow> (error_result (''Error creating event: '' @ message env error), [])
      | Inr event \<Rightarrow>
          let params = JObj [(''calendarId'', JStr ''primary''), (''requestBody'', event)] in
          (case events_insert calendar params of
             Inl error \<Rightarrow>
               (error_result (''Error creating event: '' @ message env error),
                [EventsInsert params])
           | Inr data \<Rightarrow>
               (case get data ''id'' of
                  Inl error \<Rightarrow>
                    (error_result (''Error creating event: '' @ message env error),
                     [EventsInsert params])
                | Inr ident \<Rightarrow>
                    (case to_string (numberToString env) ident of
                       Inl error \<Rightarrow>
                         (error_result (''Error creating event: '' @ message env error),
                          [EventsInsert params])
                     | Inr shown \<Rightarrow>
                         (text_result (JStr (''Event created successfully. Event ID: '' @ shown)),
                          [EventsInsert params])))))"

section \<open>update\_event\<close>

text \<open>\<^verbatim>\<open>if (v) event.k = w\<close> on the object under construction.\<close>

definition assign_if :: "jsval \<Rightarrow> string \<Rightarrow> jsval \<Rightarrow> (string \<times> jsval) list" where
  "assign_if v k w = (if truthy v then [(k, w)] else [])"

text \<open>
  The sparse object \<open>event\<close>: it starts empty and receives a property for each truthy
  argument, in the order of the six \<^verbatim>\<open>if\<close> statements.
\<close>

definition updateEvent :: "env \<Rightarrow> jsval \<Rightarrow> js_error + jsval" where
  "updateEvent env args =
     (if nullish args then Inl (TypeError (Destructure args))
      else
        let summary = lookup args ''summary'';
            location = lookup args ''location'';
            description = lookup args ''description'';
            start = lookup args ''start'';
            end = lookup args ''end'';
            attendees = lookup args ''attendees'';
            event = assign_if summary ''summary'' summary @
                    assign_if location ''location'' location @
                    assign_if description ''description'' description @
                    assign_if start ''start'' (zoned env start) @
                    assign_if end ''end'' (zoned env end)
        in if truthy attendees then
             (case js_map ''attendees.map'' attendee attendees of
                Inl e \<Rightarrow> Inl e
              | Inr mapped \<Rightarrow> Inr (JObj (event @ [(''attendees'', mapped)])))
           else Inr (JObj event))"

definition handleUpdateEvent :: "env \<Rightarrow> calendar \<Rightarrow> jsval \<Rightarrow> jsval \<times> cal_call list" where
  "handleUpdateEvent env calendar args =
     (case updateEvent env args of
        Inl error \<Rightarrow> (error_result (''Error updating event: '' @ message env error), [])
      | Inr event \<Rightarrow>
          let params = JObj [(''calendarId'', JStr ''primary''),
                             (''eventId'', lookup args ''eventId''),
                             (''requestBody'', event)] in
          (case events_patch calendar params of
             Inl error \<Rightarrow>
               (error_result (''Error updating event: '' @ message env error),
                [EventsPatch params])
           | Inr data \<Rightarrow>
               (case get data ''id'' of
                  Inl error \<Rightarrow>
                    (error_result (''Error updating event: '' @ message env error),
                     [EventsPatch params])
                | Inr ident \<Rightarrow>
                    (case to_string (numberToString env) ident of
                       Inl error \<Rightarrow>
                         (error_result (''Error updating event: '' @ message env error),
                          [EventsPatch params])
                     | Inr shown \<Rightarrow>
                         (text_result (JStr (''Event updated successfully. Event ID: '' @ shown)),
                          [EventsPatch params])))))"

section \<open>list\_events\<close>

text \<open>The parameter object of \<^verbatim>\<open>calendar.events.list\<close>; building it cannot throw.\<close>

definition listParams :: "env \<Rightarrow> jsval \<Rightarrow> jsval" where
  "listParams env args =
     (let maxResults = js_or (opt_get args ''maxResults'') (JNum 10);
          timeMin = js_or (opt_get args ''timeMin'') (JStr (nowISO env));
          timeMax = opt_get args ''timeMax''
      in JObj [(''calendarId'', JStr ''primary''),
               (''timeMin'', timeMin),
               (''timeMax'', timeMax),
               (''maxResults'', maxResults),
               (''singleEvents'', JBool True),
               (''orderBy'', JStr ''startTime'')])"

text \<open>The callback of \<^verbatim>\<open>items?.map\<close>: five property reads of \<open>event\<close>.\<close>

definition project :: "jsval \<Rightarrow> js_error + jsval" where
  "project event =
     (if nullish event then Inl (TypeError (ReadProperty event ''id''))
      else Inr (JObj [(''id'', lookup event ''id''),
                      (''summary'', lookup event ''summary''),
                      (''start'', lookup event ''start''),
                      (''end'', lookup event ''end''),
                      (''location'', lookup event ''location'')]))"

text \<open>
  \<^verbatim>\<open>response.data.items?.map(...)\<close>: reading \<open>items\<close> throws on a missing \<open>data\<close>, the
  optional call gives \<open>undefined\<close> when \<open>items\<close> is \<open>undefined\<close> or \<open>null\<close>.
\<close>

definition projectItems :: "jsval \<Rightarrow> js_error + jsval" where
  "projectItems data =
     (case get data ''items'' of
        Inl e \<Rightarrow> Inl e
      | Inr items \<Rightarrow>
          if nullish items then Inr JUndefined
          else js_map ''response.data.items?.map'' project items)"

text \<open>\<^verbatim>\<open>JSON.stringify(v, null, 2)\<close>: \<open>undefined\<close> is not serialised, it is returned.\<close>

definition json_stringify :: "env \<Rightarrow> jsval \<Rightarrow> jsval" where
  "json_stringify env v = (if v = JUndefined then JUndefined else JStr (jsonStringify env v))"

definition handleListEvents :: "env \<Rightarrow> calendar \<Rightarrow> jsval \<Rightarrow> jsval \<times> cal_call list" where
  "handleListEvents env calendar args =
     (let params = listParams env args in
      case events_list calendar params of
        Inl error \<Rightarrow>
          (error_result (''Error fetching calendar events: '' @ message env error),
           [EventsList params])
      | Inr data \<Rightarrow>
          (case projectItems data of
             Inl error \<Rightarrow>
               (error_result (''Error fetching calendar events: '' @ message env error),
                [EventsList params])
           | Inr events \<Rightarrow> (text_result (json_stringify env events), [EventsList params])))"

section \<open>The tool registry\<close>

text \<open>A schema property \<^verbatim>\<open>k: { type: t, description: d }\<close>.\<close>

definition field :: "string \<Rightarrow> string \<Rightarrow> string \<Rightarrow> string \<times> jsval" where
  "field k t d = (k, JObj [(''type'', JStr t), (''description'', JStr d)])"

text \<open>The \<open>attendees\<close> property, an array of strings.\<close>

definition array_field :: "string \<Rightarrow> string \<Rightarrow> string \<times> jsval" where
  "array_field k d =
     (k, JObj [(''type'', JStr ''array''),
               (''items'', JObj [(''type'', JStr ''string'')]),
               (''description'', JStr d)])"

text \<open>The object the \<open>ListToolsRequestSchema\<close> handler returns, a literal.\<close>

definition listTools :: jsval where
  "listTools =
     JObj [(''tools'', JArr [
       JObj [(''name'', JStr ''list_events''),
             (''description'', JStr ''List upcoming calendar events''),
             (''inputSchema'', JObj [
                (''type'', JStr ''object''),
                (''properties'', JObj [
                   field ''maxResults'' ''number''
                     ''Maximum number of events to return (default: 10)'',
                   field ''timeMin'' ''string'' ''Start time in ISO format (default: now)'',
                   field ''timeMax'' ''string'' ''End time in ISO format''])])],
       JObj [(''name'', JStr ''create_event''),
             (''description'', JStr ''Create a new calendar event''),
             (''inputSchema'', JObj [
                (''type'', JStr ''object''),
                (''properties'', JObj [
                   field ''summary'' ''string'' ''Event title'',
                   field ''location'' ''string'' ''Event location'',
                   field ''description'' ''string'' ''Event description'',
                   field ''start'' ''string'' ''Start time in ISO format'',
                   field ''end'' ''string'' ''End time in ISO format'',
                   array_field ''attendees'' ''List of attendee email addresses'']),
                (''required'', JArr [JStr ''summary'', JStr ''start'', JStr ''end''])])],
       JObj [(''name'', JStr ''update_event''),
             (''description'', JStr ''Update an existing calendar event''),
             (''inputSchema'', JObj [
                (''type'', JStr ''object''),
                (''properties'', JObj [
                   field ''eventId'' ''string'' ''Event ID to update'',
                   field ''summary'' ''string'' ''New event title'',
                   field ''location'' ''string'' ''New event location'',
                   field ''description'' ''string'' ''New event description'',
                   field ''start'' ''string'' ''New start time in ISO format'',
                   field ''end'' ''string'' ''New end time in ISO format'',
                   array_field ''attendees'' ''New list of attendee email addresses'']),
                (''required'', JArr [JStr ''eventId''])])],
       JObj [(''name'', JStr ''delete_event''),
             (''description'', JStr ''Delete a calendar event''),
             (''inputSchema'', JObj [
                (''type'', JStr ''object''),
                (''properties'', JObj [
                   field ''eventId'' ''string'' ''Event ID to delete'']),
                (''required'', JArr [JStr ''eventId''])])]])]"

section \<open>The dispatcher\<close>

text \<open>\<^verbatim>\<open>request.params\<close> of a \<open>CallToolRequestSchema\<close> request.\<close>

record params =
  name :: string
  arguments :: jsval

datatype error_code = MethodNotFound

text \<open>\<^verbatim>\<open>new McpError(code, message)\<close>, by its two constructor arguments.\<close>

datatype mcp_error = McpError error_code string

text \<open>
  The \<^verbatim>\<open>switch\<close> on the tool name. A handler's result is returned as it is; the
  default branch throws, and has called no handler and so not the Calendar Client.
\<close>

definition dispatch :: "env \<Rightarrow> calendar \<Rightarrow> params \<Rightarrow> (mcp_error + jsval) \<times> cal_call list" where
  "dispatch env calendar request =
     (if name request = ''list_events'' then
        (let (r, calls) = handleListEvents env calendar (arguments request) in (Inr r, calls))
      else if name request = ''create_event'' then
        (let (r, calls) = handleCreateEvent env calendar (arguments request) in (Inr r, calls))
      else if name request = ''update_event'' then
        (let (r, calls) = handleUpdateEvent env calendar (arguments request) in (Inr r, calls))
      else if name request = ''delete_event'' then
        (let (r, calls) = handleDeleteEvent env calendar (arguments request) in (Inr r, calls))
      else (Inl (McpError MethodNotFound (''Unknown tool: '' @ name request)), []))"

section \<open>Observations used by the properties\<close>

text \<open>The elements of an array and the property names of an object.\<close>

fun elements :: "jsval \<Rightarrow> jsval list" where
  "elements (JArr xs) = xs"
| "elements v = []"

fun keys :: "jsval \<Rightarrow> string list" where
  "keys (JObj kvs) = map fst kvs"
| "keys v = []"

text \<open>The tool definitions of the registry, and what a definition declares.\<close>

definition tools :: "jsval list" where
  "tools = elements (lookup listTools ''tools'')"

definition tool_name :: "jsval \<Rightarrow> jsval" where
  "tool_name t = lookup t ''name''"

definition required_fields :: "jsval \<Rightarrow> jsval list" where
  "required_fields t = elements (lookup (lookup t ''inputSchema'') ''required'')"

definition offered_fields :: "jsval \<Rightarrow> string list" where
  "offered_fields t = keys (lookup (lookup t ''inputSchema'') ''properties'')"

definition registered :: "string \<Rightarrow> bool" where
  "registered n = (JStr n \<in> set (map tool_name tools))"

text \<open>
  The definitions the registry holds for a tool name, and the offered fields of a
  definition that it does not require.
\<close>

definition definitions_of :: "string \<Rightarrow> jsval list" where
  "definitions_of n = filter (\<lambda>t. tool_name t = JStr n) tools"

definition optional_fields :: "jsval \<Rightarrow> string list" where
  "optional_fields t = filter (\<lambda>k. JStr k \<notin> set (required_fields t)) (offered_fields t)"

text \<open>The text each handler's \<^verbatim>\<open>catch\<close> block puts before \<^verbatim>\<open>error.message\<close>.\<close>

definition failure_prefix :: "string \<Rightarrow> string" where
  "failure_prefix n =
     (if n = ''list_events'' then ''Error fetching calendar events: ''
      else if n = ''create_event'' then ''Error creating event: ''
      else if n = ''update_event'' then ''Error updating event: ''
      else ''Error deleting event: '')"

text \<open>
  When a handler gets as far as its call on the Calendar Client: \<open>list_events\<close> always
  does; the others need an argument object to destructure, and \<open>create_event\<close> and
  \<open>update_event\<close> an \<open>attendees\<close> they can map (a list, or one that is skipped).
\<close>

fun is_array :: "jsval \<Rightarrow> bool" where
  "is_array (JArr xs) = True"
| "is_array v = False"

definition reaches_provider :: "string \<Rightarrow> jsval \<Rightarrow> bool" where
  "reaches_provider n args =
     (if n = ''list_events'' then True
      else if n = ''create_event'' then
        \<not> nullish args \<and>
        (lookup args ''attendees'' = JUndefined \<or> is_array (lookup args ''attendees''))
      else if n = ''update_event'' then
        \<not> nullish args \<and>
        (\<not> truthy (lookup args ''attendees'') \<or> is_array (lookup args ''attendees''))
      else \<not> nullish args)"

text \<open>The tool whose handler makes a call of this kind.\<close>

fun method_of :: "cal_call \<Rightarrow> string" where
  "method_of (EventsList p) = ''list_events''"
| "method_of (EventsInsert p) = ''create_event''"
| "method_of (EventsPatch p) = ''update_event''"
| "method_of (EventsDelete p) = ''delete_event''"

text \<open>
  What the outcome \<open>out\<close> of the handler of tool \<open>n\<close> (its result and the calls it
  made) must satisfy for failures to stay inside it. The result has one of the two
  shapes. If the handler gets as far as the Calendar Client (\<open>reaches\<close>), it makes
  exactly one call, of its own kind, and when the client rejects that call the result
  is the error shape with the failure's message after the handler's prefix. If it does
  not, it makes no call and the result is the error shape with the message of the
  engine's \<open>TypeError\<close>.
\<close>

definition contained :: "env \<Rightarrow> calendar \<Rightarrow> string \<Rightarrow> bool \<Rightarrow> jsval \<times> cal_call list \<Rightarrow> bool" where
  "contained env calendar n reaches out =
     (((\<exists>t. fst out = text_result t) \<or>
       (\<exists>m. fst out = error_result (failure_prefix n @ m))) \<and>
      (reaches \<longrightarrow>
         (\<exists>c. snd out = [c] \<and> method_of c = n \<and>
            (\<forall>e. perform calendar c = Inl e \<longrightarrow>
               fst out = error_result (failure_prefix n @ message env e)))) \<and>
      (\<not> reaches \<longrightarrow>
         snd out = [] \<and>
         (\<exists>f. fst out = error_result (failure_prefix n @ typeErrorMessage env f))))"

subsection \<open>The patch of update\_event, as the specification words it\<close>

text \<open>
  The specification describes the patch by its content and not by the six \<^verbatim>\<open>if\<close>
  statements: it holds exactly the fields whose argument is truthy, \<open>start\<close> and \<open>end\<close>
  rebuilt with the local time zone, \<open>attendees\<close> as one-field objects, the others as
  given. \<open>patch_object\<close> is that description; the theorems compare it with what
  \<open>handleUpdateEvent\<close> sends.
\<close>

definition truthy_fields :: "jsval \<Rightarrow> string list" where
  "truthy_fields args =
     filter (\<lambda>k. truthy (lookup args k))
       [''summary'', ''location'', ''description'', ''start'', ''end'', ''attendees'']"

definition patch_value :: "env \<Rightarrow> jsval \<Rightarrow> string \<Rightarrow> jsval" where
  "patch_value env args k =
     (if k = ''start'' \<or> k = ''end'' then
        JObj [(''dateTime'', lookup args k), (''timeZone'', JStr (timeZone env))]
      else if k = ''attendees'' then
        JArr (map (\<lambda>email. JObj [(''email'', email)]) (elements (lookup args k)))
      else lookup args k)"

definition patch_object :: "env \<Rightarrow> jsval \<Rightarrow> jsval" where
  "patch_object env args = JObj (map (\<lambda>k. (k, patch_value env args k)) (truthy_fields args))"

subsection \<open>A sample environment and sample providers\<close>

text \<open>An environment to run the handlers in.\<close>

definition env0 :: env where
  "env0 = \<lparr>timeZone = ''Europe/Paris'', nowISO = ''2024-01-01T09:00:00.000Z'',
           numberToString = (\<lambda>n. ''<number>''), jsonStringify = (\<lambda>v. ''<json>''),
           typeErrorMessage = (\<lambda>f. ''TypeError'')\<rparr>"

text \<open>A provider that accepts every call, and one that rejects every call.\<close>

definition calendar_ok :: calendar where
  "calendar_ok =
     \<lparr>events_list = (\<lambda>p. Inr (JObj [(''items'', JArr [])])),
      events_insert = (\<lambda>p. Inr (JObj [(''id'', JStr ''evt42'')])),
      events_patch = (\<lambda>p. Inr (JObj [(''id'', lookup p ''eventId'')])),
      events_delete = (\<lambda>p. Inr (JStr []))\<rparr>"

definition calendar_down :: calendar where
  "calendar_down =
     \<lparr>events_list = (\<lambda>p. Inl (Error ''Not Found'')),
      events_insert = (\<lambda>p. Inl (Error ''Not Found'')),
      events_patch = (\<lambda>p. Inl (Error ''Not Found'')),
      events_delete = (\<lambda>p. Inl (Error ''Not Found''))\<rparr>"

text \<open>
  A provider whose list holds two events, whatever is asked, and one whose answer to
  \<open>list\<close> carries no \<open>items\<close>.
\<close>

definition calendar_two :: calendar where
  "calendar_two =
     calendar_ok \<lparr>events_list := (\<lambda>p. Inr (JObj [(''kind'', JStr ''calendar#events''),
       (''items'', JArr [
          JObj [(''id'', JStr ''e1''), (''status'', JStr ''confirmed''),
                (''summary'', JStr ''Standup''),
                (''start'', JObj [(''dateTime'', JStr ''2024-01-02T09:00:00Z'')]),
                (''end'', JObj [(''dateTime'', JStr ''2024-01-02T09:15:00Z'')])],
          JObj [(''id'', JStr ''e2''), (''summary'', JStr ''Review''),
                (''location'', JStr ''Room 4''),
                (''start'', JObj [(''dateTime'', JStr ''2024-01-03T14:00:00Z'')]),
                (''end'', JObj [(''dateTime'', JStr ''2024-01-03T15:00:00Z'')])]])]))\<rparr>"

definition calendar_bare :: calendar where
  "calendar_bare =
     calendar_ok \<lparr>events_list := (\<lambda>p. Inr (JObj [(''kind'', JStr ''calendar#events'')]))\<rparr>"

section \<open>Properties of the dispatcher\<close>

lemma registered_iff:
  "registered n \<longleftrightarrow>
     n \<in> {''list_events'', ''create_event'', ''update_event'', ''delete_event''}"
  by (auto simp add: registered_def tools_def listTools_def tool_name_def)

text \<open>
  C1. A call whose tool name is none of \<open>list_events\<close>, \<open>create_event\<close>,
  \<open>update_event\<close>, \<open>delete_event\<close> ends in the thrown \<open>McpError\<close> with the code
  \<open>MethodNotFound\<close> and the message \<open>Unknown tool: <name>\<close>: the outcome is the
  protocol error and not a tool result, and the Calendar Client has not been called,
  which only a handler does. These names are the ones the registry holds.
\<close>

theorem dispatch_unknown_tool:
  assumes "name request \<notin> {''list_events'', ''create_event'', ''update_event'', ''delete_event''}"
  shows "\<not> registered (name request) \<and>
         dispatch env calendar request =
           (Inl (McpError MethodNotFound (''Unknown tool: '' @ name request)), [])"
  using assms by (simp add: dispatch_def registered_iff)

theorem dispatch_unknown_tool_witness:
  "''get_events'' \<notin> {''list_events'', ''create_event'', ''update_event'', ''delete_event''} \<and>
   \<not> registered ''get_events'' \<and>
   dispatch env0 calendar_ok \<lparr>name = ''get_events'', arguments = JObj []\<rparr> =
     (Inl (McpError MethodNotFound ''Unknown tool: get_events''), [])"
  using dispatch_unknown_tool
    [of "\<lparr>name = ''get_events'', arguments = JObj []\<rparr>" env0 calendar_ok]
  by simp

lemma dispatch_registered:
  "dispatch env calendar \<lparr>name = ''list_events'', arguments = a\<rparr> =
     (Inr (fst (handleListEvents env calendar a)), snd (handleListEvents env calendar a))"
  "dispatch env calendar \<lparr>name = ''create_event'', arguments = a\<rparr> =
     (Inr (fst (handleCreateEvent env calendar a)), snd (handleCreateEvent env calendar a))"
  "dispatch env calendar \<lparr>name = ''update_event'', arguments = a\<rparr> =
     (Inr (fst (handleUpdateEvent env calendar a)), snd (handleUpdateEvent env calendar a))"
  "dispatch env calendar \<lparr>name = ''delete_event'', arguments = a\<rparr> =
     (Inr (fst (handleDeleteEvent env calendar a)), snd (handleDeleteEvent env calendar a))"
  by (simp_all add: dispatch_def case_prod_beta)

lemma failure_prefix_simps:
  "failure_prefix ''list_events'' = ''Error fetching calendar events: ''"
  "failure_prefix ''create_event'' = ''Error creating event: ''"
  "failure_prefix ''update_event'' = ''Error updating event: ''"
  "failure_prefix ''delete_event'' = ''Error deleting event: ''"
  by (simp_all add: failure_prefix_def)

subsection \<open>Each handler keeps its failures\<close>

lemma map_attempt_attendee:
  "map_attempt attendee xs = Inr (map (\<lambda>email. JObj [(''email'', email)]) xs)"
  by (induction xs) (simp_all add: attendee_def)

lemma is_array_iff: "is_array v \<longleftrightarrow> (\<exists>xs. v = JArr xs)"
  by (cases v) simp_all

lemma createEvent_reaches:
  "\<not> nullish args \<and>
   (lookup args ''attendees'' = JUndefined \<or> is_array (lookup args ''attendees'')) \<Longrightarrow>
   \<exists>event. createEvent env args = Inr event"
  by (cases "lookup args ''attendees''")
    (auto simp add: createEvent_def Let_def map_attempt_attendee)

lemma createEvent_fails:
  "\<not> (\<not> nullish args \<and>
   (lookup args ''attendees'' = JUndefined \<or> is_array (lookup args ''attendees''))) \<Longrightarrow>
   \<exists>f. createEvent env args = Inl (TypeError f)"
  by (cases "lookup args ''attendees''") (auto simp add: createEvent_def Let_def)

lemma updateEvent_reaches:
  "\<not> nullish args \<and>
   (\<not> truthy (lookup args ''attendees'') \<or> is_array (lookup args ''attendees'')) \<Longrightarrow>
   \<exists>event. updateEvent env args = Inr event"
  by (cases "lookup args ''attendees''")
    (auto simp add: updateEvent_def Let_def map_attempt_attendee)

lemma updateEvent_fails:
  "\<not> (\<not> nullish args \<and>
   (\<not> truthy (lookup args ''attendees'') \<or> is_array (lookup args ''attendees''))) \<Longrightarrow>
   \<exists>f. updateEvent env args = Inl (TypeError f)"
  by (cases "lookup args ''attendees''") (auto simp add: updateEvent_def Let_def)

lemma handleDeleteEvent_contained:
  "contained env calendar ''delete_event'' (\<not> nullish args) (handleDeleteEvent env calendar args)"
  by (auto simp add: contained_def handleDeleteEvent_def deleteParams_def failure_prefix_simps
        split: sum.splits)

lemma handleListEvents_contained:
  "contained env calendar ''list_events'' True (handleListEvents env calendar args)"
  by (auto simp add: contained_def handleListEvents_def Let_def failure_prefix_simps
        split: sum.splits)

lemma handleCreateEvent_contained:
  "contained env calendar ''create_event''
     (\<not> nullish args \<and>
      (lookup args ''attendees'' = JUndefined \<or> is_array (lookup args ''attendees'')))
     (handleCreateEvent env calendar args)"
proof (cases "\<not> nullish args \<and>
      (lookup args ''attendees'' = JUndefined \<or> is_array (lookup args ''attendees''))")
  case True
  then obtain event where "createEvent env args = Inr event"
    using createEvent_reaches by blast
  with True show ?thesis
    by (auto simp add: contained_def handleCreateEvent_def Let_def failure_prefix_simps
          split: sum.splits)
next
  case False
  then obtain f where "createEvent env args = Inl (TypeError f)"
    using createEvent_fails by blast
  with False show ?thesis
    by (auto simp add: contained_def handleCreateEvent_def failure_prefix_simps)
qed

lemma handleUpdateEvent_contained:
  "contained env calendar ''update_event''
     (\<not> nullish args \<and>
      (\<not> truthy (lookup args ''attendees'') \<or> is_array (lookup args ''attendees'')))
     (handleUpdateEvent env calendar args)"
proof (cases "\<not> nullish args \<and>
      (\<not> truthy (lookup args ''attendees'') \<or> is_array (lookup args ''attendees''))")
  case True
  then obtain event where "updateEvent env args = Inr event"
    using updateEvent_reaches by blast
  with True show ?thesis
    by (auto simp add: contained_def handleUpdateEvent_def Let_def failure_prefix_simps
          split: sum.splits)
next
  case False
  then obtain f where "updateEvent env args = Inl (TypeError f)"
    using updateEvent_fails by blast
  with False show ?thesis
    by (auto simp add: contained_def handleUpdateEvent_def failure_prefix_simps)
qed


lemma reaches_provider_simps:
  "reaches_provider ''list_events'' a = True"
  "reaches_provider ''create_event'' a =
     (\<not> nullish a \<and> (lookup a ''attendees'' = JUndefined \<or> is_array (lookup a ''attendees'')))"
  "reaches_provider ''update_event'' a =
     (\<not> nullish a \<and> (\<not> truthy (lookup a ''attendees'') \<or> is_array (lookup a ''attendees'')))"
  "reaches_provider ''delete_event'' a = (\<not> nullish a)"
  by (simp_all add: reaches_provider_def)

lemma dispatch_contained:
  assumes "registered n"
  shows "\<exists>r calls. dispatch env calendar \<lparr>name = n, arguments = a\<rparr> = (Inr r, calls) \<and>
           contained env calendar n (reaches_provider n a) (r, calls)"
proof -
  from assms consider "n = ''list_events''" | "n = ''create_event''"
    | "n = ''update_event''" | "n = ''delete_event''"
    by (auto simp add: registered_iff)
  then show ?thesis
  proof cases
    case 1
    show ?thesis
      unfolding 1 dispatch_registered reaches_provider_simps
      using handleListEvents_contained [of env calendar a]
      by (intro exI conjI) (rule refl, simp only: prod.collapse)
  next
    case 2
    show ?thesis
      unfolding 2 dispatch_registered reaches_provider_simps
      using handleCreateEvent_contained [of env calendar a]
      by (intro exI conjI) (rule refl, simp only: prod.collapse)
  next
    case 3
    show ?thesis
      unfolding 3 dispatch_registered reaches_provider_simps
      using handleUpdateEvent_contained [of env calendar a]
      by (intro exI conjI) (rule refl, simp only: prod.collapse)
  next
    case 4
    show ?thesis
      unfolding 4 dispatch_registered reaches_provider_simps
      using handleDeleteEvent_contained [of env calendar a]
      by (intro exI conjI) (rule refl, simp only: prod.collapse)
  qed
qed

text \<open>
  C2. For each of the four registered tools, whatever the arguments and the Calendar
  Client, the dispatcher ends with a tool result and never with an exception of the
  handler. The result is either a plain one-item text result or the error result:
  \<open>isError\<close> true and one text item, whose text starts with the handler's prefix. When
  the handler gets as far as the Calendar Client it makes exactly one call, of its own
  kind; and if the client rejects that call, the result is the error result whose text
  is the prefix followed by the message of the failure. When it does not get that far
  (no argument object, \<open>attendees\<close> that cannot be mapped), it makes no call and the
  result is the error result with the message of the engine's \<open>TypeError\<close>.
\<close>

theorem handler_failures_contained:
  assumes "registered (name request)"
  shows "\<exists>r calls. dispatch env calendar request = (Inr r, calls) \<and>
     ((\<exists>t. r = JObj [(''content'', JArr [JObj [(''type'', JStr ''text''), (''text'', t)]])]) \<or>
      (\<exists>m. r = JObj [(''content'', JArr [JObj [(''type'', JStr ''text''),
                        (''text'', JStr (failure_prefix (name request) @ m))]]),
                     (''isError'', JBool True)])) \<and>
     (reaches_provider (name request) (arguments request) \<longrightarrow>
        (\<exists>c. calls = [c] \<and> method_of c = name request \<and>
           (\<forall>e. perform calendar c = Inl e \<longrightarrow>
              r = JObj [(''content'', JArr [JObj [(''type'', JStr ''text''),
                          (''text'', JStr (failure_prefix (name request) @ message env e))]]),
                        (''isError'', JBool True)]))) \<and>
     (\<not> reaches_provider (name request) (arguments request) \<longrightarrow>
        calls = [] \<and>
        (\<exists>f. r = JObj [(''content'', JArr [JObj [(''type'', JStr ''text''),
                          (''text'', JStr (failure_prefix (name request) @ typeErrorMessage env f))]]),
                       (''isError'', JBool True)]))"
proof -
  obtain n a where request: "request = \<lparr>name = n, arguments = a\<rparr>"
    by (cases request) simp
  with assms have "registered n" by simp
  from dispatch_contained [OF this, of env calendar a] show ?thesis
    unfolding request contained_def text_result_def error_result_def
    by (simp only: params.simps fst_conv snd_conv)
qed

theorem handler_failures_contained_witness:
  "registered ''delete_event'' \<and>
   reaches_provider ''delete_event'' (JObj [(''eventId'', JStr ''abc123'')]) \<and>
   perform calendar_down
     (EventsDelete (JObj [(''calendarId'', JStr ''primary''), (''eventId'', JStr ''abc123'')])) =
     Inl (Error ''Not Found'') \<and>
   dispatch env0 calendar_down
     \<lparr>name = ''delete_event'', arguments = JObj [(''eventId'', JStr ''abc123'')]\<rparr> =
     (Inr (JObj [(''content'', JArr [JObj [(''type'', JStr ''text''),
                   (''text'', JStr ''Error deleting event: Not Found'')]]),
                 (''isError'', JBool True)]),
      [EventsDelete (JObj [(''calendarId'', JStr ''primary''), (''eventId'', JStr ''abc123'')])]) \<and>
   registered ''update_event'' \<and>
   \<not> reaches_provider ''update_event''
       (JObj [(''eventId'', JStr ''abc123''), (''attendees'', JStr ''a@example.org'')]) \<and>
   dispatch env0 calendar_down
     \<lparr>name = ''update_event'',
      arguments = JObj [(''eventId'', JStr ''abc123''), (''attendees'', JStr ''a@example.org'')]\<rparr> =
     (Inr (JObj [(''content'', JArr [JObj [(''type'', JStr ''text''),
                   (''text'', JStr (''Error updating event: '' @
                      typeErrorMessage env0 (NotAFunction ''attendees.map'')))]]),
                 (''isError'', JBool True)]),
      [])"
  using handler_failures_contained
    [of "\<lparr>name = ''delete_event'', arguments = JObj [(''eventId'', JStr ''abc123'')]\<rparr>"
        env0 calendar_down]
    handler_failures_contained
    [of "\<lparr>name = ''update_event'',
          arguments = JObj [(''eventId'', JStr ''abc123''), (''attendees'', JStr ''a@example.org'')]\<rparr>"
        env0 calendar_down]
  by (simp add: registered_iff reaches_provider_simps dispatch_registered handleDeleteEvent_def
        deleteParams_def handleUpdateEvent_def updateEvent_def Let_def error_result_def
        calendar_down_def)

section \<open>Properties of the registry\<close>

text \<open>
  C7. The answer to \<open>list_tools\<close> is a constant: its \<open>tools\<close> are four definitions,
  named \<open>list_events\<close>, \<open>create_event\<close>, \<open>update_event\<close> and \<open>delete_event\<close>, hence
  one for each name. \<open>list_events\<close> requires nothing and offers \<open>maxResults\<close>,
  \<open>timeMin\<close>, \<open>timeMax\<close>; \<open>create_event\<close> requires \<open>summary\<close>, \<open>start\<close>, \<open>end\<close> and
  offers \<open>location\<close>, \<open>description\<close>, \<open>attendees\<close> besides; \<open>update_event\<close> requires
  \<open>eventId\<close> and offers the six fields of an event besides; \<open>delete_event\<close> requires
  \<open>eventId\<close> and offers nothing else.
\<close>

theorem list_tools_definitions:
  "lookup listTools ''tools'' = JArr tools \<and>
   map tool_name tools =
     [JStr ''list_events'', JStr ''create_event'', JStr ''update_event'', JStr ''delete_event''] \<and>
   map required_fields (definitions_of ''list_events'') = [[]] \<and>
   map optional_fields (definitions_of ''list_events'') =
     [[''maxResults'', ''timeMin'', ''timeMax'']] \<and>
   map required_fields (definitions_of ''create_event'') =
     [[JStr ''summary'', JStr ''start'', JStr ''end'']] \<and>
   map optional_fields (definitions_of ''create_event'') =
     [[''location'', ''description'', ''attendees'']] \<and>
   map required_fields (definitions_of ''update_event'') = [[JStr ''eventId'']] \<and>
   map optional_fields (definitions_of ''update_event'') =
     [[''summary'', ''location'', ''description'', ''start'', ''end'', ''attendees'']] \<and>
   map required_fields (definitions_of ''delete_event'') = [[JStr ''eventId'']] \<and>
   map optional_fields (definitions_of ''delete_event'') = [[]]"
  by (simp add: definitions_of_def optional_fields_def required_fields_def offered_fields_def
        tools_def listTools_def tool_name_def field_def array_field_def)

section \<open>Properties of delete\_event\<close>

text \<open>
  C8. A \<open>delete_event\<close> call with an argument object asks the Calendar Client once to
  delete, on the calendar \<open>primary\<close>, the event whose identifier is the caller's
  \<open>eventId\<close>, unchanged. When the client accepts and \<open>eventId\<close> is a string, as the
  tool's schema says, the result is the plain one-item text result, with no
  \<open>isError\<close>, whose text is \<open>Event deleted successfully. Event ID: \<close> followed by
  that same string; the same holds of any \<open>eventId\<close> with a string form, and an
  \<open>eventId\<close> without one ends in the error result. When the client rejects, the
  result is the error result (\<open>isError\<close> true, one text item) whose text is
  \<open>Error deleting event: \<close> followed by the provider's message. A call without an
  argument object fails in the destructuring, before any call on the client, with the
  error result as well.
\<close>

theorem delete_event_outcome:
  fixes env :: env and calendar :: calendar and args :: jsval
  defines "request \<equiv> JObj [(''calendarId'', JStr ''primary''),
                             (''eventId'', lookup args ''eventId'')]"
  shows
  "(nullish args \<longrightarrow>
      handleDeleteEvent env calendar args =
        (JObj [(''content'', JArr [JObj [(''type'', JStr ''text''),
                 (''text'', JStr (''Error deleting event: '' @
                    typeErrorMessage env (Destructure args)))]]),
               (''isError'', JBool True)],
         [])) \<and>
   (\<not> nullish args \<longrightarrow>
      snd (handleDeleteEvent env calendar args) = [EventsDelete request] \<and>
      (\<forall>data eventId.
         events_delete calendar request = Inr data \<and>
         lookup args ''eventId'' = JStr eventId \<longrightarrow>
           fst (handleDeleteEvent env calendar args) =
             JObj [(''content'', JArr [JObj [(''type'', JStr ''text''),
                     (''text'', JStr (''Event deleted successfully. Event ID: '' @ eventId))]])]) \<and>
      (\<forall>data shown.
         events_delete calendar request = Inr data \<and>
         to_string (numberToString env) (lookup args ''eventId'') = Inr shown \<longrightarrow>
           fst (handleDeleteEvent env calendar args) =
             JObj [(''content'', JArr [JObj [(''type'', JStr ''text''),
                     (''text'', JStr (''Event deleted successfully. Event ID: '' @ shown))]])]) \<and>
      (\<forall>data e.
         events_delete calendar request = Inr data \<and>
         to_string (numberToString env) (lookup args ''eventId'') = Inl e \<longrightarrow>
           fst (handleDeleteEvent env calendar args) =
             JObj [(''content'', JArr [JObj [(''type'', JStr ''text''),
                     (''text'', JStr (''Error deleting event: '' @ message env e))]]),
                   (''isError'', JBool True)]) \<and>
      (\<forall>e. events_delete calendar request = Inl e \<longrightarrow>
         fst (handleDeleteEvent env calendar args) =
           JObj [(''content'', JArr [JObj [(''type'', JStr ''text''),
                   (''text'', JStr (''Error deleting event: '' @ message env e))]]),
                 (''isError'', JBool True)]))"
  unfolding request_def
  by (auto simp add: handleDeleteEvent_def deleteParams_def text_result_def error_result_def
        split: sum.splits)

theorem delete_event_outcome_witness:
  "\<not> nullish (JObj [(''eventId'', JStr ''abc123'')]) \<and>
   lookup (JObj [(''eventId'', JStr ''abc123'')]) ''eventId'' = JStr ''abc123'' \<and>
   (\<forall>p. events_delete calendar_ok p = Inr (JStr [])) \<and>
   (\<forall>p. events_delete calendar_down p = Inl (Error ''Not Found'')) \<and>
   handleDeleteEvent env0 calendar_ok (JObj [(''eventId'', JStr ''abc123'')]) =
     (JObj [(''content'', JArr [JObj [(''type'', JStr ''text''),
              (''text'', JStr ''Event deleted successfully. Event ID: abc123'')]])],
      [EventsDelete (JObj [(''calendarId'', JStr ''primary''), (''eventId'', JStr ''abc123'')])]) \<and>
   handleDeleteEvent env0 calendar_down (JObj [(''eventId'', JStr ''abc123'')]) =
     (JObj [(''content'', JArr [JObj [(''type'', JStr ''text''),
              (''text'', JStr ''Error deleting event: Not Found'')]]),
            (''isError'', JBool True)],
      [EventsDelete (JObj [(''calendarId'', JStr ''primary''), (''eventId'', JStr ''abc123'')])]) \<and>
   to_string (numberToString env0) (JObj [(''toString'', JNum 1)]) =
     Inl (TypeError (ToPrimitive (JObj [(''toString'', JNum 1)]))) \<and>
   handleDeleteEvent env0 calendar_ok (JObj [(''eventId'', JObj [(''toString'', JNum 1)])]) =
     (JObj [(''content'', JArr [JObj [(''type'', JStr ''text''),
              (''text'', JStr (''Error deleting event: '' @
                 typeErrorMessage env0 (ToPrimitive (JObj [(''toString'', JNum 1)]))))]]),
            (''isError'', JBool True)],
      [EventsDelete (JObj [(''calendarId'', JStr ''primary''),
                           (''eventId'', JObj [(''toString'', JNum 1)])])]) \<and>
   nullish JUndefined \<and>
   handleDeleteEvent env0 calendar_ok JUndefined =
     (JObj [(''content'', JArr [JObj [(''type'', JStr ''text''),
              (''text'', JStr (''Error deleting event: '' @
                 typeErrorMessage env0 (Destructure JUndefined)))]]),
            (''isError'', JBool True)],
      [])"
  using delete_event_outcome [of "JObj [(''eventId'', JStr ''abc123'')]" env0 calendar_ok]
    delete_event_outcome [of "JObj [(''eventId'', JStr ''abc123'')]" env0 calendar_down]
    delete_event_outcome [of "JObj [(''eventId'', JObj [(''toString'', JNum 1)])]" env0 calendar_ok]
    delete_event_outcome [of JUndefined env0 calendar_ok]
  by (simp add: calendar_ok_def calendar_down_def prod_eq_iff)

section \<open>Properties of create\_event\<close>

lemma createEvent_array:
  assumes "\<not> nullish args"
    and "lookup args ''attendees'' = JArr emails \<or>
         lookup args ''attendees'' = JUndefined \<and> emails = []"
  shows "createEvent env args =
     Inr (JObj [(''summary'', lookup args ''summary''),
                (''location'', lookup args ''location''),
                (''description'', lookup args ''description''),
                (''start'', JObj [(''dateTime'', lookup args ''start''),
                                  (''timeZone'', JStr (timeZone env))]),
                (''end'', JObj [(''dateTime'', lookup args ''end''),
                                (''timeZone'', JStr (timeZone env))]),
                (''attendees'', JArr (map (\<lambda>email. JObj [(''email'', email)]) emails))])"
  using assms
  by (auto simp add: createEvent_def Let_def zoned_def map_attempt_attendee)

lemma createEvent_other:
  assumes "nullish args \<or>
           (\<forall>emails. lookup args ''attendees'' \<noteq> JArr emails) \<and>
           lookup args ''attendees'' \<noteq> JUndefined"
  shows "\<exists>e. createEvent env args = Inl e"
  using assms
  by (cases "lookup args ''attendees''") (auto simp add: createEvent_def Let_def)

text \<open>
  C4. A \<open>create_event\<close> call with an argument object whose \<open>attendees\<close> is a list, or
  is omitted, makes one call on the Calendar Client: an insert on the calendar
  \<open>primary\<close> of the event whose \<open>start\<close> and \<open>end\<close> carry the given timestamps, both
  with the one time zone of the process, and whose \<open>attendees\<close> are the given values,
  each as a one-field object \<open>{email}\<close>, in order (none when \<open>attendees\<close> is omitted).
  When the client answers with the created event and its identifier, a string, the
  result is the plain one-item text result, with no \<open>isError\<close>, whose text is
  \<open>Event created successfully. Event ID: \<close> followed by that identifier; the same
  holds of any \<open>id\<close> with a string form, and an \<open>id\<close> without one ends in the error
  result. Any other call (no argument object, \<open>attendees\<close> that is not a list) sends
  nothing.
\<close>

theorem create_event_request:
  fixes env :: env and calendar :: calendar and args :: jsval and emails :: "jsval list"
  defines "event \<equiv>
     JObj [(''summary'', lookup args ''summary''),
           (''location'', lookup args ''location''),
           (''description'', lookup args ''description''),
           (''start'', JObj [(''dateTime'', lookup args ''start''),
                             (''timeZone'', JStr (timeZone env))]),
           (''end'', JObj [(''dateTime'', lookup args ''end''),
                           (''timeZone'', JStr (timeZone env))]),
           (''attendees'', JArr (map (\<lambda>email. JObj [(''email'', email)]) emails))]"
  shows "(\<not> nullish args \<and>
          (lookup args ''attendees'' = JArr emails \<or>
           lookup args ''attendees'' = JUndefined \<and> emails = []) \<longrightarrow>
            snd (handleCreateEvent env calendar args) =
              [EventsInsert (JObj [(''calendarId'', JStr ''primary''), (''requestBody'', event)])] \<and>
            (\<forall>data ident.
               events_insert calendar
                 (JObj [(''calendarId'', JStr ''primary''), (''requestBody'', event)]) = Inr data \<and>
               lookup data ''id'' = JStr ident \<longrightarrow>
                 fst (handleCreateEvent env calendar args) =
                   JObj [(''content'', JArr [JObj [(''type'', JStr ''text''),
                     (''text'', JStr (''Event created successfully. Event ID: '' @ ident))]])]) \<and>
            (\<forall>data shown.
               events_insert calendar
                 (JObj [(''calendarId'', JStr ''primary''), (''requestBody'', event)]) = Inr data \<and>
               \<not> nullish data \<and>
               to_string (numberToString env) (lookup data ''id'') = Inr shown \<longrightarrow>
                 fst (handleCreateEvent env calendar args) =
                   JObj [(''content'', JArr [JObj [(''type'', JStr ''text''),
                     (''text'', JStr (''Event created successfully. Event ID: '' @ shown))]])]) \<and>
            (\<forall>data e.
               events_insert calendar
                 (JObj [(''calendarId'', JStr ''primary''), (''requestBody'', event)]) = Inr data \<and>
               \<not> nullish data \<and>
               to_string (numberToString env) (lookup data ''id'') = Inl e \<longrightarrow>
                 fst (handleCreateEvent env calendar args) =
                   JObj [(''content'', JArr [JObj [(''type'', JStr ''text''),
                     (''text'', JStr (''Error creating event: '' @ message env e))]]),
                     (''isError'', JBool True)])) \<and>
         (nullish args \<or>
          (\<forall>es. lookup args ''attendees'' \<noteq> JArr es) \<and>
          lookup args ''attendees'' \<noteq> JUndefined \<longrightarrow>
            snd (handleCreateEvent env calendar args) = [])"
proof (intro conjI impI allI)
  assume a: "\<not> nullish args \<and>
    (lookup args ''attendees'' = JArr emails \<or>
     lookup args ''attendees'' = JUndefined \<and> emails = [])"
  then have ev: "createEvent env args = Inr event"
    unfolding event_def by (intro createEvent_array) simp_all
  then show "snd (handleCreateEvent env calendar args) =
      [EventsInsert (JObj [(''calendarId'', JStr ''primary''), (''requestBody'', event)])]"
    by (simp add: handleCreateEvent_def Let_def split: sum.splits)
  {
    fix data ident
    assume "events_insert calendar
        (JObj [(''calendarId'', JStr ''primary''), (''requestBody'', event)]) = Inr data \<and>
      lookup data ''id'' = JStr ident"
    moreover from this have "\<not> nullish data" by (cases data) auto
    ultimately show "fst (handleCreateEvent env calendar args) =
        JObj [(''content'', JArr [JObj [(''type'', JStr ''text''),
          (''text'', JStr (''Event created successfully. Event ID: '' @ ident))]])]"
      using ev by (simp add: handleCreateEvent_def Let_def get_def text_result_def)
  }
  {
    fix data shown
    assume "events_insert calendar
        (JObj [(''calendarId'', JStr ''primary''), (''requestBody'', event)]) = Inr data \<and>
      \<not> nullish data \<and> to_string (numberToString env) (lookup data ''id'') = Inr shown"
    with ev show "fst (handleCreateEvent env calendar args) =
        JObj [(''content'', JArr [JObj [(''type'', JStr ''text''),
          (''text'', JStr (''Event created successfully. Event ID: '' @ shown))]])]"
      by (simp add: handleCreateEvent_def Let_def get_def text_result_def)
  }
  {
    fix data e
    assume "events_insert calendar
        (JObj [(''calendarId'', JStr ''primary''), (''requestBody'', event)]) = Inr data \<and>
      \<not> nullish data \<and> to_string (numberToString env) (lookup data ''id'') = Inl e"
    with ev show "fst (handleCreateEvent env calendar args) =
        JObj [(''content'', JArr [JObj [(''type'', JStr ''text''),
          (''text'', JStr (''Error creating event: '' @ message env e))]]),
          (''isError'', JBool True)]"
      by (simp add: handleCreateEvent_def Let_def get_def error_result_def)
  }
next
  assume "nullish args \<or>
    (\<forall>es. lookup args ''attendees'' \<noteq> JArr es) \<and> lookup args ''attendees'' \<noteq> JUndefined"
  then obtain e where "createEvent env args = Inl e"
    using createEvent_other by blast
  then show "snd (handleCreateEvent env calendar args) = []"
    by (simp add: handleCreateEvent_def)
qed


theorem create_event_request_witness:
  "\<not> nullish (JObj [(''summary'', JStr ''Test''), (''start'', JStr ''2024-01-01T10:00:00Z''),
                     (''end'', JStr ''2024-01-01T11:00:00Z'')]) \<and>
   lookup (JObj [(''summary'', JStr ''Test''), (''start'', JStr ''2024-01-01T10:00:00Z''),
                 (''end'', JStr ''2024-01-01T11:00:00Z'')]) ''attendees'' = JUndefined \<and>
   (\<forall>p. events_insert calendar_ok p = Inr (JObj [(''id'', JStr ''evt42'')])) \<and>
   lookup (JObj [(''id'', JStr ''evt42'')]) ''id'' = JStr ''evt42'' \<and>
   handleCreateEvent env0 calendar_ok
     (JObj [(''summary'', JStr ''Test''), (''start'', JStr ''2024-01-01T10:00:00Z''),
            (''end'', JStr ''2024-01-01T11:00:00Z'')]) =
     (JObj [(''content'', JArr [JObj [(''type'', JStr ''text''),
              (''text'', JStr ''Event created successfully. Event ID: evt42'')]])],
      [EventsInsert (JObj [(''calendarId'', JStr ''primary''),
         (''requestBody'',
          JObj [(''summary'', JStr ''Test''),
                (''location'', JUndefined),
                (''description'', JUndefined),
                (''start'', JObj [(''dateTime'', JStr ''2024-01-01T10:00:00Z''),
                                  (''timeZone'', JStr (timeZone env0))]),
                (''end'', JObj [(''dateTime'', JStr ''2024-01-01T11:00:00Z''),
                                (''timeZone'', JStr (timeZone env0))]),
                (''attendees'', JArr [])])])]) \<and>
   snd (handleCreateEvent env0 calendar_ok
     (JObj [(''summary'', JStr ''Test''), (''start'', JStr ''2024-01-01T10:00:00Z''),
            (''end'', JStr ''2024-01-01T11:00:00Z''),
            (''attendees'', JArr [JStr ''a@example.org'', JStr ''b@example.org''])])) =
     [EventsInsert (JObj [(''calendarId'', JStr ''primary''),
        (''requestBody'',
         JObj [(''summary'', JStr ''Test''),
               (''location'', JUndefined),
               (''description'', JUndefined),
               (''start'', JObj [(''dateTime'', JStr ''2024-01-01T10:00:00Z''),
                                 (''timeZone'', JStr (timeZone env0))]),
               (''end'', JObj [(''dateTime'', JStr ''2024-01-01T11:00:00Z''),
                               (''timeZone'', JStr (timeZone env0))]),
               (''attendees'', JArr [JObj [(''email'', JStr ''a@example.org'')],
                                     JObj [(''email'', JStr ''b@example.org'')]])])])] \<and>
   nullish JNull \<and>
   snd (handleCreateEvent env0 calendar_ok JNull) = []"
  using create_event_request
    [of "JObj [(''summary'', JStr ''Test''), (''start'', JStr ''2024-01-01T10:00:00Z''),
               (''end'', JStr ''2024-01-01T11:00:00Z'')]" "[]" env0 calendar_ok]
    create_event_request
    [of "JObj [(''summary'', JStr ''Test''), (''start'', JStr ''2024-01-01T10:00:00Z''),
               (''end'', JStr ''2024-01-01T11:00:00Z''),
               (''attendees'', JArr [JStr ''a@example.org'', JStr ''b@example.org''])]"
        "[JStr ''a@example.org'', JStr ''b@example.org'']" env0 calendar_ok]
    create_event_request [of JNull "[]" env0 calendar_ok]
  by (simp add: calendar_ok_def prod_eq_iff)

section \<open>Properties of update\_event\<close>

lemma map_filter_Cons:
  "map f (filter P (x # xs)) = (if P x then [f x] else []) @ map f (filter P xs)"
  by simp

lemma patch_object_unfold:
  "patch_object env args =
     JObj (assign_if (lookup args ''summary'') ''summary'' (lookup args ''summary'') @
           assign_if (lookup args ''location'') ''location'' (lookup args ''location'') @
           assign_if (lookup args ''description'') ''description'' (lookup args ''description'') @
           assign_if (lookup args ''start'') ''start'' (zoned env (lookup args ''start'')) @
           assign_if (lookup args ''end'') ''end'' (zoned env (lookup args ''end'')) @
           assign_if (lookup args ''attendees'') ''attendees''
             (JArr (map (\<lambda>email. JObj [(''email'', email)])
                (elements (lookup args ''attendees'')))))"
  unfolding patch_object_def truthy_fields_def map_filter_Cons
  by (simp add: assign_if_def patch_value_def zoned_def)

lemma updateEvent_sent:
  assumes "\<not> nullish args"
    and "\<not> truthy (lookup args ''attendees'') \<or> (\<exists>es. lookup args ''attendees'' = JArr es)"
  shows "updateEvent env args = Inr (patch_object env args)"
  using assms unfolding patch_object_unfold
  by (auto simp add: updateEvent_def Let_def map_attempt_attendee assign_if_def)

lemma updateEvent_other:
  assumes "nullish args \<or>
           truthy (lookup args ''attendees'') \<and> (\<forall>es. lookup args ''attendees'' \<noteq> JArr es)"
  shows "\<exists>e. updateEvent env args = Inl e"
  using assms
  by (cases "lookup args ''attendees''") (auto simp add: updateEvent_def Let_def)

lemma keys_patch_object: "keys (patch_object env args) = truthy_fields args"
  by (simp add: patch_object_def comp_def)

lemma lookup_patch_object:
  "k \<in> set (truthy_fields args) \<Longrightarrow> lookup (patch_object env args) k = patch_value env args k"
  by (simp add: patch_object_def map_of_map_restrict)

lemma truthy_fields_truthy: "k \<in> set (truthy_fields args) \<Longrightarrow> truthy (lookup args k)"
  unfolding truthy_fields_def set_filter by blast

lemma patch_value_nonempty:
  "truthy (lookup args k) \<Longrightarrow> patch_value env args k \<noteq> JStr []"
  by (auto simp add: patch_value_def)

text \<open>
  C3, as amended. An \<open>update_event\<close> call with an argument object whose \<open>attendees\<close> is
  falsy or a list makes one call on the Calendar Client: a patch, on the calendar
  \<open>primary\<close> and the caller's \<open>eventId\<close>, whose body holds exactly the fields whose
  argument is truthy, each with the value the specification gives it; any other call
  sends nothing. A field passed as the empty string is not in the body, and no field of
  the body is the empty string, so no field can be set to the empty string. With
  \<open>eventId\<close> = \<open>abc123\<close> and \<open>summary\<close> = \<open>New Title\<close> alone the body is
  \<open>{summary: "New Title"}\<close>. An empty list of attendees is truthy: it is in the body, as
  the empty list.
\<close>

theorem update_event_patch:
  "(\<not> nullish args \<and>
    (\<not> truthy (lookup args ''attendees'') \<or> (\<exists>es. lookup args ''attendees'' = JArr es)) \<longrightarrow>
      snd (handleUpdateEvent env calendar args) =
        [EventsPatch (JObj [(''calendarId'', JStr ''primary''),
                            (''eventId'', lookup args ''eventId''),
                            (''requestBody'', patch_object env args)])]) \<and>
   (nullish args \<or>
    truthy (lookup args ''attendees'') \<and> (\<forall>es. lookup args ''attendees'' \<noteq> JArr es) \<longrightarrow>
      snd (handleUpdateEvent env calendar args) = []) \<and>
   keys (patch_object env args) = truthy_fields args \<and>
   (\<forall>k \<in> set (truthy_fields args).
      lookup (patch_object env args) k = patch_value env args k \<and>
      lookup (patch_object env args) k \<noteq> JStr []) \<and>
   (\<forall>k. lookup args k = JStr [] \<longrightarrow> k \<notin> set (keys (patch_object env args))) \<and>
   patch_object env (JObj [(''eventId'', JStr ''abc123''), (''summary'', JStr ''New Title'')]) =
     JObj [(''summary'', JStr ''New Title'')] \<and>
   patch_object env (JObj [(''eventId'', JStr ''abc123''), (''attendees'', JArr [])]) =
     JObj [(''attendees'', JArr [])]"
proof (intro conjI impI allI ballI)
  assume "\<not> nullish args \<and>
    (\<not> truthy (lookup args ''attendees'') \<or> (\<exists>es. lookup args ''attendees'' = JArr es))"
  then have "updateEvent env args = Inr (patch_object env args)"
    by (intro updateEvent_sent) simp_all
  then show "snd (handleUpdateEvent env calendar args) =
      [EventsPatch (JObj [(''calendarId'', JStr ''primary''),
                          (''eventId'', lookup args ''eventId''),
                          (''requestBody'', patch_object env args)])]"
    by (simp add: handleUpdateEvent_def Let_def split: sum.splits)
next
  assume "nullish args \<or>
    truthy (lookup args ''attendees'') \<and> (\<forall>es. lookup args ''attendees'' \<noteq> JArr es)"
  then obtain e where "updateEvent env args = Inl e"
    using updateEvent_other by blast
  then show "snd (handleUpdateEvent env calendar args) = []"
    by (simp add: handleUpdateEvent_def)
next
  show "keys (patch_object env args) = truthy_fields args"
    by (rule keys_patch_object)
next
  fix k assume k: "k \<in> set (truthy_fields args)"
  then show "lookup (patch_object env args) k = patch_value env args k"
    by (rule lookup_patch_object)
  with k show "lookup (patch_object env args) k \<noteq> JStr []"
    by (simp add: patch_value_nonempty truthy_fields_truthy)
next
  fix k assume "lookup args k = JStr []"
  then show "k \<notin> set (keys (patch_object env args))"
    by (auto simp add: keys_patch_object dest: truthy_fields_truthy)
next
  show "patch_object env (JObj [(''eventId'', JStr ''abc123''), (''summary'', JStr ''New Title'')]) =
     JObj [(''summary'', JStr ''New Title'')]"
    by (simp add: patch_object_def truthy_fields_def patch_value_def)
next
  show "patch_object env (JObj [(''eventId'', JStr ''abc123''), (''attendees'', JArr [])]) =
     JObj [(''attendees'', JArr [])]"
    by (simp add: patch_object_def truthy_fields_def patch_value_def)
qed

theorem update_event_patch_witness:
  "\<not> nullish (JObj [(''eventId'', JStr ''abc123''), (''summary'', JStr ''New Title''),
                     (''description'', JStr [])]) \<and>
   \<not> truthy (lookup (JObj [(''eventId'', JStr ''abc123''), (''summary'', JStr ''New Title''),
                            (''description'', JStr [])]) ''attendees'') \<and>
   handleUpdateEvent env0 calendar_ok
     (JObj [(''eventId'', JStr ''abc123''), (''summary'', JStr ''New Title''),
            (''description'', JStr [])]) =
     (text_result (JStr ''Event updated successfully. Event ID: abc123''),
      [EventsPatch (JObj [(''calendarId'', JStr ''primary''),
                          (''eventId'', JStr ''abc123''),
                          (''requestBody'', JObj [(''summary'', JStr ''New Title'')])])]) \<and>
   truthy (lookup (JObj [(''eventId'', JStr ''abc123''), (''attendees'', JStr ''a@example.org'')])
     ''attendees'') \<and>
   snd (handleUpdateEvent env0 calendar_ok
     (JObj [(''eventId'', JStr ''abc123''), (''attendees'', JStr ''a@example.org'')])) = []"
  using update_event_patch
    [of "JObj [(''eventId'', JStr ''abc123''), (''summary'', JStr ''New Title''),
               (''description'', JStr [])]" env0 calendar_ok]
    update_event_patch
    [of "JObj [(''eventId'', JStr ''abc123''), (''attendees'', JStr ''a@example.org'')]"
        env0 calendar_ok]
  by (simp add: handleUpdateEvent_def updateEvent_def assign_if_def Let_def get_def
        calendar_ok_def)

text \<open>
  C3, as stated, fails: an empty list of attendees is truthy, so it is in the patch and
  the event's attendees are set to the empty list.
\<close>

theorem update_event_clears_attendees:
  "handleUpdateEvent env0 calendar_ok
     (JObj [(''eventId'', JStr ''abc123''), (''attendees'', JArr [])]) =
     (text_result (JStr ''Event updated successfully. Event ID: abc123''),
      [EventsPatch (JObj [(''calendarId'', JStr ''primary''),
                          (''eventId'', JStr ''abc123''),
                          (''requestBody'', JObj [(''attendees'', JArr [])])])])"
  by (simp add: handleUpdateEvent_def updateEvent_def assign_if_def Let_def get_def
        calendar_ok_def)

section \<open>Properties of list\_events\<close>

lemma handleListEvents_calls:
  "snd (handleListEvents env calendar args) = [EventsList (listParams env args)]"
  by (simp add: handleListEvents_def Let_def split: sum.splits)

lemma listParams_lookup:
  "lookup (listParams env args) ''calendarId'' = JStr ''primary''"
  "lookup (listParams env args) ''timeMin'' =
     (if truthy (opt_get args ''timeMin'') then opt_get args ''timeMin'' else JStr (nowISO env))"
  "lookup (listParams env args) ''timeMax'' = opt_get args ''timeMax''"
  "lookup (listParams env args) ''maxResults'' =
     (if truthy (opt_get args ''maxResults'') then opt_get args ''maxResults'' else JNum 10)"
  "lookup (listParams env args) ''singleEvents'' = JBool True"
  "lookup (listParams env args) ''orderBy'' = JStr ''startTime''"
  by (simp_all add: listParams_def Let_def js_or_def)

lemma keys_listParams:
  "keys (listParams env args) =
     [''calendarId'', ''timeMin'', ''timeMax'', ''maxResults'', ''singleEvents'', ''orderBy'']"
  by (simp add: listParams_def Let_def)

lemma map_attempt_project:
  "\<forall>ev \<in> set evs. \<not> nullish ev \<Longrightarrow>
   map_attempt project evs =
     Inr (map (\<lambda>ev. JObj [(''id'', lookup ev ''id''),
                           (''summary'', lookup ev ''summary''),
                           (''start'', lookup ev ''start''),
                           (''end'', lookup ev ''end''),
                           (''location'', lookup ev ''location'')]) evs)"
  by (induction evs) (simp_all add: project_def)

text \<open>
  C5. Every \<open>list_events\<close> call makes one call on the Calendar Client, whose
  parameters are \<open>calendarId\<close> = \<open>primary\<close>, \<open>timeMin\<close>, \<open>timeMax\<close>, \<open>maxResults\<close>,
  \<open>singleEvents\<close> = true and \<open>orderBy\<close> = \<open>startTime\<close>, with \<open>maxResults\<close> the caller's
  value when truthy and 10 otherwise: at most that many single events, in the order of
  their start, are what is asked of the provider. When the client answers with an
  array \<open>items\<close> of events, the result is the plain one-item text result whose text is
  the serialisation of the projected list: one object for each event returned, in the
  provider's order, of exactly the five fields \<open>id\<close>, \<open>summary\<close>, \<open>start\<close>, \<open>end\<close>,
  \<open>location\<close> of that event. The projected list is as long as the provider's answer,
  so it has no more than \<open>maxResults\<close> items when the provider returns no more than
  the \<open>maxResults\<close> it was sent, which is what the request asks of it.
\<close>

theorem list_events_request_and_projection:
  "snd (handleListEvents env calendar args) = [EventsList (listParams env args)] \<and>
   keys (listParams env args) =
     [''calendarId'', ''timeMin'', ''timeMax'', ''maxResults'', ''singleEvents'', ''orderBy''] \<and>
   lookup (listParams env args) ''calendarId'' = JStr ''primary'' \<and>
   lookup (listParams env args) ''singleEvents'' = JBool True \<and>
   lookup (listParams env args) ''orderBy'' = JStr ''startTime'' \<and>
   lookup (listParams env args) ''maxResults'' =
     (if truthy (opt_get args ''maxResults'') then opt_get args ''maxResults'' else JNum 10) \<and>
   (\<forall>data evs.
      events_list calendar (listParams env args) = Inr data \<and>
      lookup data ''items'' = JArr evs \<and> (\<forall>ev \<in> set evs. \<not> nullish ev) \<longrightarrow>
        (\<exists>events.
           projectItems data = Inr (JArr events) \<and>
           fst (handleListEvents env calendar args) =
             JObj [(''content'', JArr [JObj [(''type'', JStr ''text''),
                     (''text'', JStr (jsonStringify env (JArr events)))]])] \<and>
           events = map (\<lambda>ev. JObj [(''id'', lookup ev ''id''),
                                     (''summary'', lookup ev ''summary''),
                                     (''start'', lookup ev ''start''),
                                     (''end'', lookup ev ''end''),
                                     (''location'', lookup ev ''location'')]) evs \<and>
           (\<forall>event \<in> set events.
              keys event = [''id'', ''summary'', ''start'', ''end'', ''location'']) \<and>
           length events = length evs \<and>
           (\<forall>m. lookup (listParams env args) ''maxResults'' = JNum m \<and>
                of_nat (length evs) \<le> m \<longrightarrow> of_nat (length events) \<le> m)))"
proof (intro conjI allI impI)
  fix data evs
  assume a: "events_list calendar (listParams env args) = Inr data \<and>
      lookup data ''items'' = JArr evs \<and> (\<forall>ev \<in> set evs. \<not> nullish ev)"
  define events where "events = map (\<lambda>ev. JObj [(''id'', lookup ev ''id''),
                                     (''summary'', lookup ev ''summary''),
                                     (''start'', lookup ev ''start''),
                                     (''end'', lookup ev ''end''),
                                     (''location'', lookup ev ''location'')]) evs"
  from a have data: "\<not> nullish data" by (cases data) auto
  with a have p: "projectItems data = Inr (JArr events)"
    unfolding events_def by (simp add: projectItems_def get_def map_attempt_project)
  with a have r: "fst (handleListEvents env calendar args) =
      JObj [(''content'', JArr [JObj [(''type'', JStr ''text''),
              (''text'', JStr (jsonStringify env (JArr events)))]])]"
    by (simp add: handleListEvents_def Let_def json_stringify_def text_result_def)
  have k: "\<forall>event \<in> set events.
      keys event = [''id'', ''summary'', ''start'', ''end'', ''location'']"
    unfolding events_def by auto
  have l: "length events = length evs"
    unfolding events_def by simp
  show "\<exists>events.
           projectItems data = Inr (JArr events) \<and>
           fst (handleListEvents env calendar args) =
             JObj [(''content'', JArr [JObj [(''type'', JStr ''text''),
                     (''text'', JStr (jsonStringify env (JArr events)))]])] \<and>
           events = map (\<lambda>ev. JObj [(''id'', lookup ev ''id''),
                                     (''summary'', lookup ev ''summary''),
                                     (''start'', lookup ev ''start''),
                                     (''end'', lookup ev ''end''),
                                     (''location'', lookup ev ''location'')]) evs \<and>
           (\<forall>event \<in> set events.
              keys event = [''id'', ''summary'', ''start'', ''end'', ''location'']) \<and>
           length events = length evs \<and>
           (\<forall>m. lookup (listParams env args) ''maxResults'' = JNum m \<and>
                of_nat (length evs) \<le> m \<longrightarrow> of_nat (length events) \<le> m)"
    using p r k l events_def by (intro exI [of _ events]) simp
qed (simp_all add: handleListEvents_calls listParams_lookup keys_listParams)

theorem list_events_request_and_projection_witness:
  "events_list calendar_two (listParams env0 (JObj [(''maxResults'', JNum 5)])) =
     Inr (JObj [(''kind'', JStr ''calendar#events''),
       (''items'', JArr [
          JObj [(''id'', JStr ''e1''), (''status'', JStr ''confirmed''),
                (''summary'', JStr ''Standup''),
                (''start'', JObj [(''dateTime'', JStr ''2024-01-02T09:00:00Z'')]),
                (''end'', JObj [(''dateTime'', JStr ''2024-01-02T09:15:00Z'')])],
          JObj [(''id'', JStr ''e2''), (''summary'', JStr ''Review''),
                (''location'', JStr ''Room 4''),
                (''start'', JObj [(''dateTime'', JStr ''2024-01-03T14:00:00Z'')]),
                (''end'', JObj [(''dateTime'', JStr ''2024-01-03T15:00:00Z'')])]])]) \<and>
   lookup (listParams env0 (JObj [(''maxResults'', JNum 5)])) ''maxResults'' = JNum 5 \<and>
   (2::rat) \<le> 5 \<and>
   projectItems (JObj [(''kind'', JStr ''calendar#events''),
       (''items'', JArr [
          JObj [(''id'', JStr ''e1''), (''status'', JStr ''confirmed''),
                (''summary'', JStr ''Standup''),
                (''start'', JObj [(''dateTime'', JStr ''2024-01-02T09:00:00Z'')]),
                (''end'', JObj [(''dateTime'', JStr ''2024-01-02T09:15:00Z'')])],
          JObj [(''id'', JStr ''e2''), (''summary'', JStr ''Review''),
                (''location'', JStr ''Room 4''),
                (''start'', JObj [(''dateTime'', JStr ''2024-01-03T14:00:00Z'')]),
                (''end'', JObj [(''dateTime'', JStr ''2024-01-03T15:00:00Z'')])]])]) =
     Inr (JArr [
        JObj [(''id'', JStr ''e1''), (''summary'', JStr ''Standup''),
              (''start'', JObj [(''dateTime'', JStr ''2024-01-02T09:00:00Z'')]),
              (''end'', JObj [(''dateTime'', JStr ''2024-01-02T09:15:00Z'')]),
              (''location'', JUndefined)],
        JObj [(''id'', JStr ''e2''), (''summary'', JStr ''Review''),
              (''start'', JObj [(''dateTime'', JStr ''2024-01-03T14:00:00Z'')]),
              (''end'', JObj [(''dateTime'', JStr ''2024-01-03T15:00:00Z'')]),
              (''location'', JStr ''Room 4'')]]) \<and>
   handleListEvents env0 calendar_two (JObj [(''maxResults'', JNum 5)]) =
     (JObj [(''content'', JArr [JObj [(''type'', JStr ''text''),
        (''text'', JStr (jsonStringify env0 (JArr [
          JObj [(''id'', JStr ''e1''), (''summary'', JStr ''Standup''),
                (''start'', JObj [(''dateTime'', JStr ''2024-01-02T09:00:00Z'')]),
                (''end'', JObj [(''dateTime'', JStr ''2024-01-02T09:15:00Z'')]),
                (''location'', JUndefined)],
          JObj [(''id'', JStr ''e2''), (''summary'', JStr ''Review''),
                (''start'', JObj [(''dateTime'', JStr ''2024-01-03T14:00:00Z'')]),
                (''end'', JObj [(''dateTime'', JStr ''2024-01-03T15:00:00Z'')]),
                (''location'', JStr ''Room 4'')]])))]])],
      [EventsList (JObj [(''calendarId'', JStr ''primary''),
                         (''timeMin'', JStr (nowISO env0)),
                         (''timeMax'', JUndefined),
                         (''maxResults'', JNum 5),
                         (''singleEvents'', JBool True),
                         (''orderBy'', JStr ''startTime'')])])"
  using list_events_request_and_projection
    [of env0 calendar_two "JObj [(''maxResults'', JNum 5)]"]
  by (simp add: handleListEvents_def listParams_def projectItems_def project_def get_def
        opt_get_def js_or_def json_stringify_def text_result_def Let_def calendar_two_def
        calendar_ok_def)

text \<open>
  C6. Every \<open>list_events\<close> call makes one call on the Calendar Client. When
  \<open>maxResults\<close> is absent the request carries 10; when \<open>timeMin\<close> is absent it carries
  the current instant as the environment gives it at the call; when \<open>timeMax\<close> is
  absent it carries \<open>undefined\<close>, that is, no upper bound. A truthy \<open>maxResults\<close> or
  \<open>timeMin\<close> and any \<open>timeMax\<close> are forwarded as given.
\<close>

theorem list_events_defaults:
  "snd (handleListEvents env calendar args) = [EventsList (listParams env args)] \<and>
   (opt_get args ''maxResults'' = JUndefined \<longrightarrow>
      lookup (listParams env args) ''maxResults'' = JNum 10) \<and>
   (opt_get args ''timeMin'' = JUndefined \<longrightarrow>
      lookup (listParams env args) ''timeMin'' = JStr (nowISO env)) \<and>
   (opt_get args ''timeMax'' = JUndefined \<longrightarrow>
      lookup (listParams env args) ''timeMax'' = JUndefined) \<and>
   (truthy (opt_get args ''maxResults'') \<longrightarrow>
      lookup (listParams env args) ''maxResults'' = opt_get args ''maxResults'') \<and>
   (truthy (opt_get args ''timeMin'') \<longrightarrow>
      lookup (listParams env args) ''timeMin'' = opt_get args ''timeMin'') \<and>
   lookup (listParams env args) ''timeMax'' = opt_get args ''timeMax''"
  by (simp add: handleListEvents_calls listParams_lookup)

theorem list_events_defaults_witness:
  "opt_get JUndefined ''maxResults'' = JUndefined \<and>
   opt_get JUndefined ''timeMin'' = JUndefined \<and>
   opt_get JUndefined ''timeMax'' = JUndefined \<and>
   snd (handleListEvents env0 calendar_ok JUndefined) =
     [EventsList (JObj [(''calendarId'', JStr ''primary''),
                        (''timeMin'', JStr (nowISO env0)),
                        (''timeMax'', JUndefined),
                        (''maxResults'', JNum 10),
                        (''singleEvents'', JBool True),
                        (''orderBy'', JStr ''startTime'')])] \<and>
   truthy (opt_get (JObj [(''maxResults'', JNum 5), (''timeMin'', JStr ''2024-02-01T00:00:00Z''),
                          (''timeMax'', JStr ''2024-03-01T00:00:00Z'')]) ''maxResults'') \<and>
   snd (handleListEvents env0 calendar_ok
          (JObj [(''maxResults'', JNum 5), (''timeMin'', JStr ''2024-02-01T00:00:00Z''),
                 (''timeMax'', JStr ''2024-03-01T00:00:00Z'')])) =
     [EventsList (JObj [(''calendarId'', JStr ''primary''),
                        (''timeMin'', JStr ''2024-02-01T00:00:00Z''),
                        (''timeMax'', JStr ''2024-03-01T00:00:00Z''),
                        (''maxResults'', JNum 5),
                        (''singleEvents'', JBool True),
                        (''orderBy'', JStr ''startTime'')])]"
  using list_events_defaults [of env0 calendar_ok JUndefined]
    list_events_defaults [of env0 calendar_ok
      "JObj [(''maxResults'', JNum 5), (''timeMin'', JStr ''2024-02-01T00:00:00Z''),
             (''timeMax'', JStr ''2024-03-01T00:00:00Z'')]"]
  by (simp add: listParams_def opt_get_def js_or_def Let_def)

text \<open>
  C9, as amended. The two defaults of \<open>list_events\<close> test truthiness and not presence:
  a falsy \<open>maxResults\<close> (0, the empty string, \<open>null\<close>, \<open>false\<close>) gives 10 in the
  request and a falsy \<open>timeMin\<close> (the empty string) gives the current instant. So the
  \<open>maxResults\<close> of a request is always truthy, and so is its \<open>timeMin\<close>, the current
  instant being a non-empty string. \<open>timeMax\<close> has no default: it is forwarded as the
  caller gave it, falsy or not.
\<close>

theorem list_events_falsy_defaults:
  "(\<not> truthy (opt_get args ''maxResults'') \<longrightarrow>
      lookup (listParams env args) ''maxResults'' = JNum 10) \<and>
   (\<not> truthy (opt_get args ''timeMin'') \<longrightarrow>
      lookup (listParams env args) ''timeMin'' = JStr (nowISO env)) \<and>
   truthy (lookup (listParams env args) ''maxResults'') \<and>
   (nowISO env \<noteq> [] \<longrightarrow> truthy (lookup (listParams env args) ''timeMin'')) \<and>
   lookup (listParams env args) ''timeMax'' = opt_get args ''timeMax'' \<and>
   snd (handleListEvents env calendar args) = [EventsList (listParams env args)]"
  by (simp add: handleListEvents_calls listParams_lookup)

theorem list_events_falsy_defaults_witness:
  "\<not> truthy (opt_get (JObj [(''maxResults'', JNum 0), (''timeMin'', JStr [])]) ''maxResults'') \<and>
   \<not> truthy (opt_get (JObj [(''maxResults'', JNum 0), (''timeMin'', JStr [])]) ''timeMin'') \<and>
   nowISO env0 \<noteq> [] \<and>
   snd (handleListEvents env0 calendar_ok (JObj [(''maxResults'', JNum 0), (''timeMin'', JStr [])])) =
     [EventsList (JObj [(''calendarId'', JStr ''primary''),
                        (''timeMin'', JStr ''2024-01-01T09:00:00.000Z''),
                        (''timeMax'', JUndefined),
                        (''maxResults'', JNum 10),
                        (''singleEvents'', JBool True),
                        (''orderBy'', JStr ''startTime'')])]"
  using list_events_falsy_defaults
    [of "JObj [(''maxResults'', JNum 0), (''timeMin'', JStr [])]" env0 calendar_ok]
  by (simp add: listParams_def opt_get_def js_or_def Let_def env0_def)

text \<open>
  C9, as stated, fails: the empty string is falsy, and given as \<open>timeMax\<close> it goes
  through to the provider unchanged.
\<close>

theorem list_events_forwards_falsy_timeMax:
  "\<not> truthy (JStr []) \<and>
   snd (handleListEvents env0 calendar_ok (JObj [(''timeMax'', JStr [])])) =
     [EventsList (JObj [(''calendarId'', JStr ''primary''),
                        (''timeMin'', JStr ''2024-01-01T09:00:00.000Z''),
                        (''timeMax'', JStr []),
                        (''maxResults'', JNum 10),
                        (''singleEvents'', JBool True),
                        (''orderBy'', JStr ''startTime'')])]"
  by (simp add: handleListEvents_def listParams_def opt_get_def js_or_def Let_def env0_def
        calendar_ok_def split: sum.splits)

text \<open>
  C10. When the Calendar Client answers a \<open>list_events\<close> call with data whose
  \<open>items\<close> is missing (or \<open>null\<close>), the optional call gives \<open>undefined\<close>, which
  \<open>JSON.stringify\<close> returns as it is: the result has no \<open>isError\<close>, and the \<open>text\<close> of
  its single content item is \<open>undefined\<close>, not a string.
\<close>

theorem list_events_without_items:
  assumes "events_list calendar (listParams env args) = Inr data"
    and "\<not> nullish data"
    and "nullish (lookup data ''items'')"
  shows "handleListEvents env calendar args =
           (JObj [(''content'', JArr [JObj [(''type'', JStr ''text''), (''text'', JUndefined)]])],
            [EventsList (listParams env args)])"
  using assms
  by (simp add: handleListEvents_def Let_def projectItems_def get_def json_stringify_def
        text_result_def)

theorem list_events_without_items_witness:
  "events_list calendar_bare (listParams env0 (JObj [])) =
     Inr (JObj [(''kind'', JStr ''calendar#events'')]) \<and>
   \<not> nullish (JObj [(''kind'', JStr ''calendar#events'')]) \<and>
   nullish (lookup (JObj [(''kind'', JStr ''calendar#events'')]) ''items'') \<and>
   fst (handleListEvents env0 calendar_bare (JObj [])) =
     JObj [(''content'', JArr [JObj [(''type'', JStr ''text''), (''text'', JUndefined)]])] \<and>
   lookup (fst (handleListEvents env0 calendar_bare (JObj []))) ''isError'' = JUndefined"
  using list_events_without_items
    [of calendar_bare env0 "JObj []" "JObj [(''kind'', JStr ''calendar#events'')]"]
  by (simp add: calendar_bare_def calendar_ok_def)

end
